theory Spec2Isabelle
  imports Complex_Main "HOL-Library.Multiset"
begin

section \<open>Data model\<close>

text \<open>
  A Python exception is a value. The trainer defines no exception class of its own; every
  failure of \<open>trainer.py\<close> is raised by a collaborator (torch, the model, a callback).
  \<open>Error c\<close> is an exception of the class named \<open>c\<close>. \<open>TorchError f\<close> is the exception
  that the torch function named \<open>f\<close> raises for arguments it rejects: its class is the
  library's own choice (RuntimeError in some releases, ValueError in others) and is not
  fixed by anything in \<open>trainer.py\<close>.
\<close>

datatype error = Error string | TorchError string

text \<open>
  A one-dimensional tensor of token ids is the list of its elements, a two-dimensional one
  the list of its rows. A label is a tensor of any shape: its shape and its elements in
  row-major order.
\<close>

datatype tensor = Tensor (shape: "nat list") (elems: "int list")

type_synonym raw_item = "int list \<times> tensor"

type_synonym batch = "int list list \<times> tensor"

section \<open>Batch assembly: \<open>collate_fn\<close>\<close>

text \<open>
  \<open>torch.cat(rows, dim=0)\<close> of tensors of shape \<open>(1, L)\<close> (each row after
  \<open>unsqueeze(0)\<close>): torch raises for an empty list and for rows whose sizes differ in
  dimension 1.
\<close>

definition torch_cat :: "int list list \<Rightarrow> error + int list list" where
  "torch_cat rows =
     (case rows of
        [] \<Rightarrow> Inl (TorchError ''torch.cat'')
      | r # rs \<Rightarrow>
          if list_all (\<lambda>q. length q = length r) rs then Inr rows
          else Inl (TorchError ''torch.cat''))"

text \<open>
  \<open>torch.stack(labels, dim=0)\<close>: torch raises for an empty list and for tensors of
  different shapes; otherwise the result is a tensor with one more leading dimension.
\<close>

definition torch_stack :: "tensor list \<Rightarrow> error + tensor" where
  "torch_stack ts =
     (case ts of
        [] \<Rightarrow> Inl (TorchError ''torch.stack'')
      | t # us \<Rightarrow>
          if list_all (\<lambda>u. shape u = shape t) us
          then Inr (Tensor (length ts # shape t) (concat (map elems ts)))
          else Inl (TorchError ''torch.stack''))"

text \<open>The slice \<open>inp[:k]\<close>; a negative \<open>k\<close> counts from the end.\<close>

definition slice_to :: "int \<Rightarrow> 'a list \<Rightarrow> 'a list" where
  "slice_to k xs =
     (if k < 0 then take (nat (int (length xs) + k)) xs else take (nat k) xs)"

text \<open>\<open>torch.zeros(n, dtype=torch.long)\<close>\<close>

definition zeros :: "int \<Rightarrow> int list" where
  "zeros n = replicate (nat n) 0"

text \<open>The first loop of \<open>collate_fn\<close>: the running maximum of the sequence lengths.\<close>

fun observed_max :: "int \<Rightarrow> raw_item list \<Rightarrow> int" where
  "observed_max max_len [] = max_len"
| "observed_max max_len ((inp, lbl) # batch) =
     observed_max (max max_len (int (length inp))) batch"

text \<open>\<open>max_len\<close> after the clamp \<open>max_len = min(max_len, model.block_size)\<close>.\<close>

definition target_len :: "int \<Rightarrow> raw_item list \<Rightarrow> int" where
  "target_len block_size batch = min (observed_max 0 batch) block_size"

text \<open>The body of the second loop, for one sequence.\<close>

definition pad_or_truncate :: "int \<Rightarrow> int list \<Rightarrow> int list" where
  "pad_or_truncate max_len inp =
     (if int (length inp) > max_len then slice_to max_len inp
      else (let pad_size = max_len - int (length inp)
            in if pad_size > 0 then inp @ zeros pad_size else inp))"

text \<open>The second loop, appending to \<open>input_ids_list\<close> and \<open>labels_list\<close>.\<close>

fun collate_loop ::
  "int \<Rightarrow> raw_item list \<Rightarrow> int list list \<Rightarrow> tensor list \<Rightarrow> int list list \<times> tensor list" where
  "collate_loop max_len [] input_ids_list labels_list = (input_ids_list, labels_list)"
| "collate_loop max_len ((inp, lbl) # batch) input_ids_list labels_list =
     collate_loop max_len batch
       (input_ids_list @ [pad_or_truncate max_len inp]) (labels_list @ [lbl])"

definition collate_fn :: "int \<Rightarrow> raw_item list \<Rightarrow> error + batch" where
  "collate_fn block_size batch =
     (case collate_loop (target_len block_size batch) batch [] [] of
        (input_ids_list, labels_list) \<Rightarrow>
          (case torch_cat input_ids_list of
             Inl e \<Rightarrow> Inl e
           | Inr input_ids_tensor \<Rightarrow>
               (case torch_stack labels_list of
                  Inl e \<Rightarrow> Inl e
                | Inr labels_tensor \<Rightarrow> Inr (input_ids_tensor, labels_tensor))))"

text \<open>The labels of a batch all have one shape.\<close>

definition uniform_labels :: "raw_item list \<Rightarrow> bool" where
  "uniform_labels batch =
     (case batch of [] \<Rightarrow> True
      | it # its \<Rightarrow> list_all (\<lambda>u. shape (snd u) = shape (snd it)) its)"

text \<open>The spec's scenario: lengths 5, 9 and 3 with block size 7.\<close>

definition scenario_batch :: "raw_item list" where
  "scenario_batch =
     [([1, 2, 3, 4, 5], Tensor [] [1]),
      ([11, 12, 13, 14, 15, 16, 17, 18, 19], Tensor [] [0]),
      ([21, 22, 23], Tensor [] [1])]"

section \<open>The trainer\<close>

text \<open>\<open>get_default_config\<close>: the recognised options; \<open>max_iters = None\<close> is no cap.\<close>

record config =
  device :: string
  num_workers :: int
  max_iters :: "int option"
  batch_size :: int
  learning_rate :: real
  betas :: "real \<times> real"
  weight_decay :: real
  grad_norm_clip :: real

definition get_default_config :: config where
  "get_default_config =
     \<lparr>device = ''auto'', num_workers = 4, max_iters = None, batch_size = 64,
      learning_rate = 3 / 10000, betas = (9 / 10, 95 / 100), weight_decay = 1 / 10,
      grad_norm_clip = 1\<rparr>"

text \<open>
  The attributes of a \<open>Trainer\<close>. \<open>model\<close> is the state of the model object (its
  parameters, gradients, mode and device), of type \<open>'m\<close>; \<open>optimizer\<close> the state of the
  optimizer object, \<open>None\<close> until \<open>run\<close> asks the model for one; \<open>loss\<close> is unset
  until the first step. \<open>callbacks\<close> is the \<open>defaultdict(list)\<close>, from event names to
  lists of callback handles of type \<open>'h\<close>. \<open>self.device\<close> is the field \<open>self_device\<close>.
  \<open>run\<close> works on the model and the configuration that the trainer holds when it starts;
  what a callback changes in them is seen by the rest of the loop, while a callback that
  makes \<open>self.model\<close> or \<open>self.config\<close> name another object is outside this model.
\<close>

record ('m, 'o, 'h) trainer =
  config :: config
  model :: 'm
  optimizer :: "'o option"
  train_dataset :: "raw_item list"
  valid_dataset :: "raw_item list option"
  callbacks :: "string \<rightharpoonup> 'h list"
  self_device :: string
  iter_num :: int
  iter_time :: real
  iter_dt :: real
  loss :: "real option"

text \<open>
  What the trainer consumes and does not define: the model collaborator
  (\<open>model.block_size\<close>, \<open>model.to\<close>, \<open>model.configure_optimizers\<close>,
  \<open>model.train\<close>, the call \<open>model(x, labels=labels)\<close> whose loss is returned as a
  number, \<open>model.zero_grad\<close>, \<open>loss.backward\<close>), torch
  (\<open>torch.cuda.is_available\<close>, the move \<open>t.to(device)\<close> of a tensor of the batch, which
  raises or returns the tensor with its values unchanged, \<open>clip_grad_norm_\<close>, the
  permutation the shuffling \<open>DataLoader\<close> draws for its \<open>p\<close>-th pass), the optimizer
  (\<open>step\<close>), the clock
  (\<open>clock k\<close> is the value of the \<open>k\<close>-th call of \<open>time.time()\<close> in \<open>run\<close>, counted
  from 0) and the callbacks (\<open>invoke h\<close> is the call \<open>callback(self)\<close> of the handle
  \<open>h\<close>). Each may raise, and each acts on the state it is given.
\<close>

record ('m, 'o, 'h) env =
  model_block_size :: int
  cuda_is_available :: bool
  model_to :: "string \<Rightarrow> 'm \<Rightarrow> error + 'm"
  configure_optimizers :: "config \<Rightarrow> 'm \<Rightarrow> error + ('o \<times> 'm)"
  model_train :: "'m \<Rightarrow> error + 'm"
  tensor_to :: "string \<Rightarrow> error + unit"
  model_forward :: "int list list \<Rightarrow> tensor \<Rightarrow> 'm \<Rightarrow> error + (real \<times> 'm)"
  zero_grad :: "'m \<Rightarrow> error + 'm"
  backward :: "'m \<Rightarrow> error + 'm"
  clip_grad_norm :: "real \<Rightarrow> 'm \<Rightarrow> error + 'm"
  optimizer_step :: "'o \<Rightarrow> 'm \<Rightarrow> error + ('o \<times> 'm)"
  shuffle :: "nat \<Rightarrow> raw_item list \<Rightarrow> raw_item list"
  clock :: "nat \<Rightarrow> real"
  invoke :: "'h \<Rightarrow> ('m, 'o, 'h) trainer \<Rightarrow> error + ('m, 'o, 'h) trainer"

text \<open>Sequencing of calls that may raise: the first exception ends the computation.\<close>

fun and_then :: "error + 'a \<Rightarrow> ('a \<Rightarrow> error + 'b) \<Rightarrow> error + 'b" where
  "and_then (Inl e) f = Inl e"
| "and_then (Inr x) f = f x"

text \<open>
  \<open>Trainer.__init__\<close>. Nothing of the configuration is examined except \<open>device\<close>; the
  only call that can raise is \<open>model.to\<close>. The \<open>print\<close> of the device is left out.
\<close>

definition init ::
  "('m, 'o, 'h) env \<Rightarrow> config \<Rightarrow> 'm \<Rightarrow> raw_item list \<Rightarrow> raw_item list option
     \<Rightarrow> error + ('m, 'o, 'h) trainer" where
  "init env cfg m train valid =
     (let dev = (if device cfg = ''auto''
                 then (if cuda_is_available env then ''cuda'' else ''cpu'')
                 else device cfg)
      in and_then (model_to env dev m) (\<lambda>m'.
           Inr \<lparr>config = cfg, model = m', optimizer = None, train_dataset = train,
                valid_dataset = valid, callbacks = Map.empty, self_device = dev,
                iter_num = 0, iter_time = 0, iter_dt = 0, loss = None\<rparr>))"

subsection \<open>Callbacks\<close>

text \<open>\<open>self.callbacks[onevent].append(callback)\<close>: a missing key starts from the empty list.\<close>

definition add_callback ::
  "string \<Rightarrow> 'h \<Rightarrow> ('m, 'o, 'h) trainer \<Rightarrow> ('m, 'o, 'h) trainer" where
  "add_callback onevent callback s =
     s\<lparr>callbacks := (callbacks s)(onevent \<mapsto>
          (case callbacks s onevent of None \<Rightarrow> [] | Some cbs \<Rightarrow> cbs) @ [callback])\<rparr>"

text \<open>\<open>self.callbacks[onevent] = [callback]\<close>\<close>

definition set_callback ::
  "string \<Rightarrow> 'h \<Rightarrow> ('m, 'o, 'h) trainer \<Rightarrow> ('m, 'o, 'h) trainer" where
  "set_callback onevent callback s = s\<lparr>callbacks := (callbacks s)(onevent \<mapsto> [callback])\<rparr>"

text \<open>
  The loop of \<open>trigger_callbacks\<close> over the list read from the dictionary when the loop
  starts. A callback receives the trainer and returns it as it left it; a callback that
  appends to the very list being traversed is outside this model.
\<close>

fun call_each ::
  "('m, 'o, 'h) env \<Rightarrow> 'h list \<Rightarrow> ('m, 'o, 'h) trainer \<Rightarrow> error + ('m, 'o, 'h) trainer" where
  "call_each env [] s = Inr s"
| "call_each env (callback # cbs) s = and_then (invoke env callback s) (call_each env cbs)"

definition trigger_callbacks ::
  "('m, 'o, 'h) env \<Rightarrow> string \<Rightarrow> ('m, 'o, 'h) trainer \<Rightarrow> error + ('m, 'o, 'h) trainer" where
  "trigger_callbacks env onevent s =
     call_each env (case callbacks s onevent of None \<Rightarrow> [] | Some cbs \<Rightarrow> cbs) s"

subsection \<open>The data loader\<close>

text \<open>
  \<open>DataLoader(dataset, shuffle=True, batch_size=b, num_workers=w, collate_fn=...)\<close>, as
  torch documents it: the constructor raises ValueError for a negative worker count, for a
  batch size that is not positive and (from its random sampler) for an empty dataset. One
  pass over the loader cuts a fresh permutation of the dataset into consecutive lists of
  \<open>b\<close> items, the last one shorter when \<open>b\<close> does not divide the size, and hands each
  list to \<open>collate_fn\<close> when the loop asks for the next batch.
\<close>

function chunks :: "nat \<Rightarrow> 'a list \<Rightarrow> 'a list list" where
  "chunks b xs = (if b = 0 \<or> xs = [] then [] else take b xs # chunks b (drop b xs))"
  by pat_completeness auto
termination
  by (relation "measure (\<lambda>(b, xs). length xs)") auto

declare chunks.simps [simp del]

definition DataLoader ::
  "('m, 'o, 'h) env \<Rightarrow> config \<Rightarrow> raw_item list \<Rightarrow> error + (nat \<Rightarrow> raw_item list list)" where
  "DataLoader env cfg dataset =
     (if num_workers cfg < 0 \<or> batch_size cfg \<le> 0 \<or> dataset = []
      then Inl (Error ''ValueError'')
      else Inr (\<lambda>p. chunks (nat (batch_size cfg)) (shuffle env p dataset)))"

subsection \<open>The step protocol and the loop\<close>

text \<open>
  The termination test \<open>config.max_iters is not None and self.iter_num >= config.max_iters\<close>.
\<close>

definition cap_reached :: "('m, 'o, 'h) trainer \<Rightarrow> bool" where
  "cap_reached s = (case max_iters (config s) of None \<Rightarrow> False | Some k \<Rightarrow> iter_num s \<ge> k)"

text \<open>
  The body of the inner loop up to the timers, for the assembled batch \<open>(x, labels)\<close>;
  \<open>n\<close> is the number of steps completed before this one, so that the clock is read for
  the \<open>(n + 1)\<close>-th time. The step begins with the move of \<open>x\<close> and then of \<open>labels\<close>
  to \<open>self.device\<close>; each move may raise and changes no value.
\<close>

definition step ::
  "('m, 'o, 'h) env \<Rightarrow> nat \<Rightarrow> batch \<Rightarrow> ('m, 'o, 'h) trainer \<Rightarrow> error + ('m, 'o, 'h) trainer" where
  "step env n b s =
     and_then (tensor_to env (self_device s)) (\<lambda>moved_x.
     and_then (tensor_to env (self_device s)) (\<lambda>moved_labels.
     and_then (model_forward env (fst b) (snd b) (model s)) (\<lambda>(l, m1).
     and_then (zero_grad env m1) (\<lambda>m2.
     and_then (backward env m2) (\<lambda>m3.
     and_then (clip_grad_norm env (grad_norm_clip (config s)) m3) (\<lambda>m4.
     and_then (case optimizer s of None \<Rightarrow> Inl (Error ''AttributeError'')
               | Some opt \<Rightarrow> optimizer_step env opt m4) (\<lambda>(opt', m5).
     and_then (trigger_callbacks env ''on_batch_end''
                 (s\<lparr>model := m5, optimizer := Some opt', loss := Some l\<rparr>)) (\<lambda>s'.
     let tnow = clock env (Suc n) in
     Inr (s'\<lparr>iter_num := iter_num s' + 1, iter_dt := tnow - iter_time s',
             iter_time := tnow\<rparr>)))))))))"

text \<open>
  \<open>for batch in train_loader: ...\<close> over the lists of one pass, with the \<open>break\<close> of the
  inner loop. The result carries the number of steps completed.
\<close>

fun for_batches ::
  "('m, 'o, 'h) env \<Rightarrow> raw_item list list \<Rightarrow> nat \<Rightarrow> ('m, 'o, 'h) trainer
     \<Rightarrow> error + (nat \<times> ('m, 'o, 'h) trainer)" where
  "for_batches env [] n s = Inr (n, s)"
| "for_batches env (raw # rest) n s =
     and_then (collate_fn (model_block_size env) raw) (\<lambda>b.
     and_then (step env n b s) (\<lambda>s'.
       if cap_reached s' then Inr (Suc n, s') else for_batches env rest (Suc n) s'))"

text \<open>
  \<open>while True\<close>: one pass, then the test again. \<open>None\<close> is a loop that never
  returns.
\<close>

partial_function (option) while_true ::
  "('m, 'o, 'h) env \<Rightarrow> (nat \<Rightarrow> raw_item list list) \<Rightarrow> nat \<Rightarrow> nat \<Rightarrow> ('m, 'o, 'h) trainer
     \<Rightarrow> (error + (nat \<times> ('m, 'o, 'h) trainer)) option" where
  "while_true env train_loader p n s =
     (case for_batches env (train_loader p) n s of
        Inl e \<Rightarrow> Some (Inl e)
      | Inr r \<Rightarrow>
          if cap_reached (snd r) then Some (Inr r)
          else while_true env train_loader (Suc p) (fst r) (snd r))"

text \<open>
  \<open>Trainer.run\<close>: the trainer at return and the number of executions of the step
  protocol, an exception, or \<open>None\<close> when it never returns. The \<open>print\<close> before the
  return is left out.
\<close>

definition run ::
  "('m, 'o, 'h) env \<Rightarrow> ('m, 'o, 'h) trainer \<Rightarrow> (error + (nat \<times> ('m, 'o, 'h) trainer)) option" where
  "run env s =
     (case configure_optimizers env (config s) (model s) of
        Inl e \<Rightarrow> Some (Inl e)
      | Inr (opt, m1) \<Rightarrow>
          (case DataLoader env (config s) (train_dataset s) of
             Inl e \<Rightarrow> Some (Inl e)
           | Inr train_loader \<Rightarrow>
               (case model_train env m1 of
                  Inl e \<Rightarrow> Some (Inl e)
                | Inr m2 \<Rightarrow>
                    while_true env train_loader 0 0
                      (s\<lparr>model := m2, optimizer := Some opt, iter_num := 0,
                         iter_time := clock env 0\<rparr>))))"

section \<open>Example inputs\<close>

text \<open>Two sequences of lengths 3 and 2: the first already has the target length.\<close>

definition pair_batch :: "raw_item list" where
  "pair_batch = [([1, 2, 3], Tensor [] [1]), ([4, 5], Tensor [] [0])]"

text \<open>
  Collaborators that never raise and keep a log in the state of the model: each call adds
  its name, and each callback adds its handle with the \<open>iter_num\<close> it reads from the
  trainer it is given. Shuffling is the identity permutation.
\<close>

datatype event = Called string | Fired string int

definition log_env :: "(event list, unit, string) env" where
  "log_env =
     \<lparr>model_block_size = 7,
      cuda_is_available = False,
      model_to = (\<lambda>dev m. Inr (m @ [Called ''model.to''])),
      configure_optimizers = (\<lambda>cfg m. Inr ((), m @ [Called ''configure_optimizers''])),
      model_train = (\<lambda>m. Inr (m @ [Called ''model.train''])),
      tensor_to = (\<lambda>dev. Inr ()),
      model_forward = (\<lambda>x labels m. Inr (0, m @ [Called ''model.forward''])),
      zero_grad = (\<lambda>m. Inr (m @ [Called ''model.zero_grad''])),
      backward = (\<lambda>m. Inr (m @ [Called ''loss.backward''])),
      clip_grad_norm = (\<lambda>c m. Inr (m @ [Called ''clip_grad_norm_''])),
      optimizer_step = (\<lambda>opt m. Inr ((), m @ [Called ''optimizer.step''])),
      shuffle = (\<lambda>p dataset. dataset),
      clock = (\<lambda>k. real k),
      invoke = (\<lambda>h s. Inr (s\<lparr>model := model s @ [Fired h (iter_num s)]\<rparr>))\<rparr>"

text \<open>
  A trainer as \<open>init\<close> leaves it on the CPU, for the configuration \<open>cfg\<close> and the
  dataset \<open>dataset\<close>, after \<open>set_callback(''on_batch_end'', h)\<close>.
\<close>

definition log_trainer :: "config \<Rightarrow> raw_item list \<Rightarrow> (event list, unit, string) trainer" where
  "log_trainer cfg dataset =
     \<lparr>config = cfg, model = [Called ''model.to''], optimizer = None, train_dataset = dataset,
      valid_dataset = None, callbacks = [''on_batch_end'' \<mapsto> [''h'']], self_device = ''cpu'',
      iter_num = 0, iter_time = 0, iter_dt = 0, loss = None\<rparr>"

text \<open>What is observed of a result of \<open>step\<close> and of \<open>run\<close>: the counter and the log.\<close>

definition step_outcome ::
  "error + ('m, 'o, 'h) trainer \<Rightarrow> error + (int \<times> 'm)" where
  "step_outcome r = (case r of Inl e \<Rightarrow> Inl e | Inr s \<Rightarrow> Inr (iter_num s, model s))"

definition run_outcome ::
  "(error + (nat \<times> ('m, 'o, 'h) trainer)) option \<Rightarrow> (error + (nat \<times> int \<times> 'm)) option" where
  "run_outcome r =
     (case r of None \<Rightarrow> None | Some (Inl e) \<Rightarrow> Some (Inl e)
      | Some (Inr (n, s)) \<Rightarrow> Some (Inr (n, iter_num s, model s)))"

text \<open>The batch that \<open>collate_fn\<close> assembles from \<open>pair_batch\<close>.\<close>

definition pair_assembled :: batch where
  "pair_assembled = ([[1, 2, 3], [4, 5, 0]], Tensor [2] [1, 0])"

text \<open>The configuration of the examples: the defaults with a cap and a batch size.\<close>

definition capped :: "int \<Rightarrow> int \<Rightarrow> config" where
  "capped k b = get_default_config\<lparr>max_iters := Some k, batch_size := b\<rparr>"

text \<open>
  The trainer of the examples once \<open>run\<close> has set its optimizer, and the trainer that one
  step on \<open>pair_assembled\<close> makes of it.
\<close>

definition log_before :: "(event list, unit, string) trainer" where
  "log_before = (log_trainer get_default_config pair_batch)\<lparr>optimizer := Some ()\<rparr>"

definition log_after :: "(event list, unit, string) trainer" where
  "log_after =
     \<lparr>config = get_default_config,
      model = [Called ''model.to'', Called ''model.forward'', Called ''model.zero_grad'',
               Called ''loss.backward'', Called ''clip_grad_norm_'', Called ''optimizer.step'',
               Fired ''h'' 0],
      optimizer = Some (), train_dataset = pair_batch, valid_dataset = None,
      callbacks = [''on_batch_end'' \<mapsto> [''h'']], self_device = ''cpu'',
      iter_num = 1, iter_time = 1, iter_dt = 1, loss = Some 0\<rparr>"

section \<open>Properties of batch assembly\<close>

lemma observed_max_Max:
  "observed_max m batch = Max (insert m ((\<lambda>it. int (length (fst it))) ` set batch))"
proof (induction batch arbitrary: m)
  case Nil
  then show ?case by simp
next
  case (Cons it batch)
  obtain inp lbl where it: "it = (inp, lbl)" by (cases it)
  let ?S = "(\<lambda>it. int (length (fst it))) ` set batch"
  have fin: "finite ?S" by simp
  have "Max (insert (max m (int (length inp))) ?S) = Max (insert m (insert (int (length inp)) ?S))"
    using fin by (cases "?S = {}") (simp_all add: max.assoc)
  then show ?case
    unfolding it observed_max.simps Cons.IH by simp
qed

lemma observed_max_nonempty:
  assumes "batch \<noteq> []"
  shows "observed_max 0 batch = Max ((\<lambda>it. int (length (fst it))) ` set batch)"
proof -
  let ?S = "(\<lambda>it. int (length (fst it))) ` set batch"
  have fin: "finite ?S" by simp
  have ne: "?S \<noteq> {}" using assms by simp
  have m: "Max (insert 0 ?S) = max 0 (Max ?S)" by (rule Max_insert [OF fin ne])
  have "\<exists>a \<in> ?S. 0 \<le> a" using assms by (cases batch) simp_all
  then have "0 \<le> Max ?S" by (simp only: Max_ge_iff [OF fin ne])
  with m show ?thesis by (simp only: observed_max_Max max_absorb2)
qed

lemma observed_max_nonneg: "0 \<le> m \<Longrightarrow> 0 \<le> observed_max m batch"
proof (induction batch arbitrary: m)
  case Nil
  then show ?case by simp
next
  case (Cons it batch)
  obtain inp lbl where it: "it = (inp, lbl)" by (cases it)
  have "0 \<le> max m (int (length inp))" using Cons.prems by linarith
  then have "0 \<le> observed_max (max m (int (length inp))) batch" by (rule Cons.IH)
  then show ?case by (simp only: it observed_max.simps)
qed

lemma target_len_nonneg: "0 \<le> block_size \<Longrightarrow> 0 \<le> target_len block_size batch"
  by (simp add: target_len_def observed_max_nonneg)

lemma collate_loop_eq:
  "collate_loop k batch ids lbls =
     (ids @ map (\<lambda>it. pad_or_truncate k (fst it)) batch, lbls @ map snd batch)"
  by (induction batch arbitrary: ids lbls) auto

lemma length_pad_or_truncate:
  "0 \<le> k \<Longrightarrow> int (length (pad_or_truncate k inp)) = k"
  by (auto simp: pad_or_truncate_def slice_to_def zeros_def Let_def)

lemma torch_cat_Inr: "torch_cat rows = Inr x \<Longrightarrow> x = rows"
  by (auto simp: torch_cat_def split: list.splits if_splits)

lemma collate_fn_rows:
  assumes "collate_fn block_size batch = Inr (x, y)"
  shows "x = map (\<lambda>it. pad_or_truncate (target_len block_size batch) (fst it)) batch"
  using assms
  by (auto simp: collate_fn_def collate_loop_eq split: sum.splits dest: torch_cat_Inr)

lemma torch_cat_uniform:
  assumes "rows \<noteq> []" and "\<forall>r \<in> set rows. int (length r) = k"
  shows "torch_cat rows = Inr rows"
proof (cases rows)
  case Nil
  with assms(1) show ?thesis by simp
next
  case (Cons r rs)
  with assms(2) have "list_all (\<lambda>q. length q = length r) rs"
    by (auto simp: list_all_iff) 
  with Cons show ?thesis by (simp add: torch_cat_def)
qed

lemma torch_stack_uniform:
  assumes "batch \<noteq> []" and "uniform_labels batch"
  shows "torch_stack (map snd batch) =
           Inr (Tensor (length batch # shape (snd (hd batch))) (concat (map (elems \<circ> snd) batch)))"
proof (cases batch)
  case Nil
  with assms(1) show ?thesis by simp
next
  case (Cons it its)
  with assms(2) have "list_all (\<lambda>u. shape u = shape (snd it)) (map snd its)"
    by (simp add: uniform_labels_def list_all_iff)
  with Cons show ?thesis by (simp add: torch_stack_def)
qed

lemma collate_fn_succeeds:
  assumes ne: "batch \<noteq> []" and bs: "0 \<le> block_size" and un: "uniform_labels batch"
  shows "collate_fn block_size batch =
           Inr (map (\<lambda>it. pad_or_truncate (target_len block_size batch) (fst it)) batch,
                Tensor (length batch # shape (snd (hd batch))) (concat (map (elems \<circ> snd) batch)))"
proof -
  let ?k = "target_len block_size batch"
  let ?rows = "map (\<lambda>it. pad_or_truncate ?k (fst it)) batch"
  have k: "0 \<le> ?k" using bs by (rule target_len_nonneg)
  have "\<forall>r \<in> set ?rows. int (length r) = ?k"
    using k by (auto simp: length_pad_or_truncate)
  moreover have "?rows \<noteq> []" using ne by simp
  ultimately have cat: "torch_cat ?rows = Inr ?rows" by (rule torch_cat_uniform[rotated])
  show ?thesis
    by (simp add: collate_fn_def collate_loop_eq cat torch_stack_uniform[OF ne un])
qed

lemma scenario_collate:
  "collate_fn 7 scenario_batch =
     Inr ([[1, 2, 3, 4, 5, 0, 0], [11, 12, 13, 14, 15, 16, 17], [21, 22, 23, 0, 0, 0, 0]],
          Tensor [3] [1, 0, 1])"
  by code_simp

lemma scenario_target_len: "target_len 7 scenario_batch = 7"
  by code_simp

lemma pair_collate: "collate_fn 7 pair_batch = Inr pair_assembled"
  by code_simp

lemma pair_target_len: "target_len 7 pair_batch = 3"
  by code_simp

text \<open>
  C1. A non-empty list of raw items that \<open>collate_fn\<close> assembles into a batch gives one row
  per item, and every row has the same length: the smaller of the longest sequence length
  in the list and the block size of the model (a length, so not negative). That the
  assembly does return a batch whenever the labels have one shape is
  \<open>collate_fn_succeeds\<close>.
\<close>

theorem collate_fn_row_length:
  assumes "batch \<noteq> []" and "0 \<le> block_size"
    and "collate_fn block_size batch = Inr (x, y)"
  shows "length x = length batch \<and>
         (\<forall>row \<in> set x. int (length row) =
            min (Max ((\<lambda>it. int (length (fst it))) ` set batch)) block_size)"
proof -
  let ?k = "target_len block_size batch"
  have x: "x = map (\<lambda>it. pad_or_truncate ?k (fst it)) batch"
    using assms(3) by (rule collate_fn_rows)
  have k: "?k = min (Max ((\<lambda>it. int (length (fst it))) ` set batch)) block_size"
    using assms(1) by (simp add: target_len_def observed_max_nonempty)
  have "0 \<le> ?k" using assms(2) by (rule target_len_nonneg)
  then have "\<forall>row \<in> set x. int (length row) = ?k"
    unfolding x by (auto simp: length_pad_or_truncate)
  then show ?thesis using x k by simp
qed

theorem collate_fn_row_length_witness:
  "scenario_batch \<noteq> [] \<and> (0::int) \<le> 7 \<and>
   collate_fn 7 scenario_batch =
     Inr ([[1, 2, 3, 4, 5, 0, 0], [11, 12, 13, 14, 15, 16, 17], [21, 22, 23, 0, 0, 0, 0]],
          Tensor [3] [1, 0, 1]) \<and>
   length [[1, 2, 3, 4, 5, 0, 0], [11, 12, 13, 14, 15, 16, 17], [21, 22, 23, 0, 0, 0, 0 :: int]]
     = length scenario_batch \<and>
   list_all
     (\<lambda>row. int (length row) =
        min (Max ((\<lambda>it. int (length (fst it))) ` set scenario_batch)) 7)
     [[1, 2, 3, 4, 5, 0, 0], [11, 12, 13, 14, 15, 16, 17], [21, 22, 23, 0, 0, 0, 0 :: int]]"
proof -
  have ne: "scenario_batch \<noteq> []" by (simp add: scenario_batch_def)
  have le: "(0::int) \<le> 7" by simp
  from collate_fn_row_length [OF ne le scenario_collate] ne le scenario_collate
  show ?thesis unfolding list_all_iff by blast
qed

text \<open>
  C5. A sequence longer than the target length is cut to its first \<open>target_len\<close>
  elements: row \<open>i\<close> of the assembled tensor is that prefix of sequence \<open>i\<close>.
\<close>

theorem collate_fn_truncates:
  assumes "0 \<le> block_size"
    and "collate_fn block_size batch = Inr (x, y)"
    and "i < length batch"
    and "int (length (fst (batch ! i))) > target_len block_size batch"
  shows "x ! i = take (nat (target_len block_size batch)) (fst (batch ! i))"
proof -
  let ?k = "target_len block_size batch"
  have k: "0 \<le> ?k" using assms(1) by (rule target_len_nonneg)
  have "x = map (\<lambda>it. pad_or_truncate ?k (fst it)) batch"
    using assms(2) by (rule collate_fn_rows)
  then have "x ! i = pad_or_truncate ?k (fst (batch ! i))"
    using assms(3) by simp
  also have "\<dots> = take (nat ?k) (fst (batch ! i))"
    using assms(4) k by (simp add: pad_or_truncate_def slice_to_def)
  finally show ?thesis .
qed

theorem collate_fn_truncates_witness:
  "(0::int) \<le> 7 \<and>
   collate_fn 7 scenario_batch =
     Inr ([[1, 2, 3, 4, 5, 0, 0], [11, 12, 13, 14, 15, 16, 17], [21, 22, 23, 0, 0, 0, 0]],
          Tensor [3] [1, 0, 1]) \<and>
   1 < length scenario_batch \<and>
   int (length (fst (scenario_batch ! 1))) > target_len 7 scenario_batch \<and>
   [[1, 2, 3, 4, 5, 0, 0], [11, 12, 13, 14, 15, 16, 17], [21, 22, 23, 0, 0, 0, 0]] ! 1 =
     take (nat (target_len 7 scenario_batch)) (fst (scenario_batch ! 1)) \<and>
   take (nat (target_len 7 scenario_batch)) (fst (scenario_batch ! 1)) =
     [11, 12, 13, 14, 15, 16, 17 :: int]"
proof -
  have le: "(0::int) \<le> 7" by simp
  have i: "1 < length scenario_batch" by (simp add: scenario_batch_def)
  have gt: "int (length (fst (scenario_batch ! 1))) > target_len 7 scenario_batch"
    by (simp add: scenario_target_len) (simp add: scenario_batch_def)
  have v: "[[1, 2, 3, 4, 5, 0, 0], [11, 12, 13, 14, 15, 16, 17], [21, 22, 23, 0, 0, 0, 0]] ! 1
             = [11, 12, 13, 14, 15, 16, 17 :: int]" by simp
  from collate_fn_truncates [OF le scenario_collate i gt] le i gt scenario_collate v
  show ?thesis by (simp only: simp_thms)
qed

text \<open>
  C6. A sequence shorter than the target length is kept and followed by
  \<open>target_len - length\<close> zeros.
\<close>

theorem collate_fn_pads:
  assumes "collate_fn block_size batch = Inr (x, y)"
    and "i < length batch"
    and "int (length (fst (batch ! i))) < target_len block_size batch"
  shows "x ! i = fst (batch ! i) @
           replicate (nat (target_len block_size batch) - length (fst (batch ! i))) 0"
proof -
  let ?k = "target_len block_size batch"
  have "x = map (\<lambda>it. pad_or_truncate ?k (fst it)) batch"
    using assms(1) by (rule collate_fn_rows)
  then have "x ! i = pad_or_truncate ?k (fst (batch ! i))"
    using assms(2) by simp
  also have "\<dots> = fst (batch ! i) @ replicate (nat ?k - length (fst (batch ! i))) 0"
    using assms(3) by (simp add: pad_or_truncate_def zeros_def Let_def nat_diff_distrib')
  finally show ?thesis .
qed

theorem collate_fn_pads_witness:
  "collate_fn 7 scenario_batch =
     Inr ([[1, 2, 3, 4, 5, 0, 0], [11, 12, 13, 14, 15, 16, 17], [21, 22, 23, 0, 0, 0, 0]],
          Tensor [3] [1, 0, 1]) \<and>
   2 < length scenario_batch \<and>
   int (length (fst (scenario_batch ! 2))) < target_len 7 scenario_batch \<and>
   [[1, 2, 3, 4, 5, 0, 0], [11, 12, 13, 14, 15, 16, 17], [21, 22, 23, 0, 0, 0, 0]] ! 2 =
     fst (scenario_batch ! 2) @
       replicate (nat (target_len 7 scenario_batch) - length (fst (scenario_batch ! 2))) 0"
proof -
  have i: "2 < length scenario_batch" by (simp add: scenario_batch_def)
  have lt: "int (length (fst (scenario_batch ! 2))) < target_len 7 scenario_batch"
    by (simp add: scenario_target_len) (simp add: scenario_batch_def)
  from collate_fn_pads [OF scenario_collate i lt] i lt scenario_collate
  show ?thesis by (simp only: simp_thms)
qed

text \<open>
  C10. A sequence whose length is exactly the target length is taken as it is; so the
  only row of a batch made from one item no longer than the block size is the sequence of
  that item.
\<close>

theorem collate_fn_exact:
  "(collate_fn block_size batch = Inr (x, y) \<and> i < length batch \<and>
      int (length (fst (batch ! i))) = target_len block_size batch
      \<longrightarrow> x ! i = fst (batch ! i)) \<and>
   (int (length inp) \<le> block_size
      \<longrightarrow> collate_fn block_size [(inp, lbl)] = Inr ([inp], Tensor (1 # shape lbl) (elems lbl)))"
proof (intro conjI impI)
  let ?k = "target_len block_size batch"
  assume a: "collate_fn block_size batch = Inr (x, y) \<and> i < length batch \<and>
      int (length (fst (batch ! i))) = target_len block_size batch"
  then have "x = map (\<lambda>it. pad_or_truncate ?k (fst it)) batch"
    by (simp add: collate_fn_rows)
  then have "x ! i = pad_or_truncate ?k (fst (batch ! i))"
    using a by simp
  also have "\<dots> = fst (batch ! i)"
    using a by (simp add: pad_or_truncate_def)
  finally show "x ! i = fst (batch ! i)" .
next
  assume "int (length inp) \<le> block_size"
  then have "target_len block_size [(inp, lbl)] = int (length inp)"
    by (simp add: target_len_def)
  then show "collate_fn block_size [(inp, lbl)] = Inr ([inp], Tensor (1 # shape lbl) (elems lbl))"
    by (simp add: collate_fn_def pad_or_truncate_def torch_cat_def torch_stack_def)
qed

theorem collate_fn_exact_witness:
  "collate_fn 7 pair_batch = Inr pair_assembled \<and> 0 < length pair_batch \<and>
   int (length (fst (pair_batch ! 0))) = target_len 7 pair_batch \<and>
   fst pair_assembled ! 0 = fst (pair_batch ! 0) \<and>
   int (length [4, 5, 6 :: int]) \<le> 7 \<and>
   collate_fn 7 [([4, 5, 6], Tensor [] [1])] = Inr ([[4, 5, 6]], Tensor [1] [1])"
proof -
  have i: "0 < length pair_batch" by (simp add: pair_batch_def)
  have eq: "int (length (fst (pair_batch ! 0))) = target_len 7 pair_batch"
    by (simp add: pair_target_len) (simp add: pair_batch_def)
  have c: "collate_fn 7 pair_batch = Inr (fst pair_assembled, snd pair_assembled)"
    by (simp add: pair_collate)
  have le: "int (length [4, 5, 6 :: int]) \<le> 7" by simp
  from collate_fn_exact [of 7 pair_batch "fst pair_assembled" "snd pair_assembled" 0
      "[4, 5, 6]" "Tensor [] [1]"] c i eq le pair_collate
  show ?thesis by simp
qed

text \<open>
  C7, as stated, fails: for the empty list \<open>collate_fn\<close> does not raise an exception named
  InvalidBatchError (the trainer defines no such class).
\<close>

theorem collate_fn_empty_counterexample:
  "collate_fn 7 [] \<noteq> Inl (Error ''InvalidBatchError'')"
  by (simp add: collate_fn_def torch_cat_def)

text \<open>
  C7, amended. The empty list is rejected and no batch is produced: both loops do nothing
  and the failure is the exception that \<open>torch.cat\<close> raises for the empty list of rows,
  whatever the block size. Its class is torch's, not one the trainer defines.
\<close>

theorem collate_fn_empty:
  "collate_fn block_size [] = Inl (TorchError ''torch.cat'')"
  by (simp add: collate_fn_def torch_cat_def)

section \<open>Properties of the callback registry and of construction\<close>

lemma and_then_Inr: "and_then x f = Inr y \<Longrightarrow> \<exists>v. x = Inr v \<and> f v = Inr y"
  by (cases x) simp_all

text \<open>
  C8. After \<open>set_callback\<close> for an event with \<open>f\<close> and then with \<open>g\<close>, the list of the
  event is \<open>[g]\<close>, triggering the event is the single call of \<open>g\<close>, and the trainer is
  the one that a single \<open>set_callback\<close> with \<open>g\<close> gives: nothing of \<open>f\<close> is left.
\<close>

theorem set_callback_twice:
  "callbacks (set_callback ev g (set_callback ev f s)) ev = Some [g] \<and>
   trigger_callbacks env ev (set_callback ev g (set_callback ev f s)) =
     invoke env g (set_callback ev g (set_callback ev f s)) \<and>
   set_callback ev g (set_callback ev f s) = set_callback ev g s"
proof -
  have "call_each env [g] t = invoke env g t" for t
    by (cases "invoke env g t") simp_all
  then show ?thesis
    by (simp add: set_callback_def trigger_callbacks_def)
qed

lemma log_trainer_constructed:
  "device cfg = ''auto'' \<Longrightarrow>
   and_then (init log_env cfg [] dataset None)
     (\<lambda>t. Inr (set_callback ''on_batch_end'' ''h'' t)) = Inr (log_trainer cfg dataset)"
  by (simp add: init_def log_env_def log_trainer_def set_callback_def)

text \<open>
  C9, as stated, fails: construction with batch size 0 returns a trainer that holds this
  configuration; nothing is raised.
\<close>

theorem init_unvalidated_counterexample:
  "init log_env (get_default_config\<lparr>batch_size := 0\<rparr>) [] scenario_batch None =
     Inr \<lparr>config = get_default_config\<lparr>batch_size := 0\<rparr>, model = [Called ''model.to''],
          optimizer = None, train_dataset = scenario_batch, valid_dataset = None,
          callbacks = Map.empty, self_device = ''cpu'', iter_num = 0, iter_time = 0,
          iter_dt = 0, loss = None\<rparr>"
  by (simp add: init_def log_env_def get_default_config_def)

text \<open>
  C9, amended. Construction validates no option. It succeeds whenever \<open>model.to\<close> for the
  resolved device does, for every configuration, and keeps the configuration as given (a
  batch size that is not positive included); it fails only with the exception of
  \<open>model.to\<close>.
\<close>

theorem init_unvalidated:
  "(model_to env (if device cfg = ''auto''
                  then (if cuda_is_available env then ''cuda'' else ''cpu'')
                  else device cfg) m = Inr m'
      \<longrightarrow> (\<exists>t. init env cfg m train valid = Inr t \<and> config t = cfg \<and> model t = m')) \<and>
   (model_to env (if device cfg = ''auto''
                  then (if cuda_is_available env then ''cuda'' else ''cpu'')
                  else device cfg) m = Inl e
      \<longrightarrow> init env cfg m train valid = Inl e)"
  by (simp add: init_def Let_def)

theorem init_unvalidated_witness:
  "model_to log_env (if device (get_default_config\<lparr>batch_size := - 3\<rparr>) = ''auto''
                  then (if cuda_is_available log_env then ''cuda'' else ''cpu'')
                  else device (get_default_config\<lparr>batch_size := - 3\<rparr>)) [] = Inr [Called ''model.to'']
   \<and> (\<exists>t. init log_env (get_default_config\<lparr>batch_size := - 3\<rparr>) [] pair_batch None = Inr t
          \<and> config t = get_default_config\<lparr>batch_size := - 3\<rparr> \<and> model t = [Called ''model.to''])"
  using init_unvalidated [of log_env "get_default_config\<lparr>batch_size := - 3\<rparr>" "[]"
      "[Called ''model.to'']" pair_batch None]
  by (simp add: log_env_def)

section \<open>Properties of the step protocol and the loop\<close>

text \<open>
  C2, as stated, fails: in a step that starts with \<open>iter_num = 0\<close> the handler of
  \<open>on_batch_end\<close> is called after \<open>optimizer.step\<close> and reads \<open>iter_num = 0\<close>; the
  counter is 1 only when the step is over.
\<close>

theorem on_batch_end_order_counterexample:
  "step_outcome (step log_env 0 pair_assembled log_before) =
     Inr (1, [Called ''model.to'', Called ''model.forward'', Called ''model.zero_grad'',
              Called ''loss.backward'', Called ''clip_grad_norm_'', Called ''optimizer.step'',
              Fired ''h'' 0])"
  by (simp add: step_outcome_def step_def log_env_def log_trainer_def log_before_def
      pair_assembled_def trigger_callbacks_def)

text \<open>
  C2, amended. In every step that returns, \<open>on_batch_end\<close> is fired after the optimizer
  step and the record of the loss and before the update of the iteration counter: the
  handlers receive the trainer with the model and optimizer as \<open>optimizer.step\<close> left
  them and with \<open>iter_num\<close> as it was when the step began; the counter and the timers are
  updated on what the handlers return, and the termination test reads the result.
\<close>

theorem on_batch_end_order:
  assumes "step env n b s = Inr s'"
  shows "\<exists>l m4 opt0 opt m5 t.
           optimizer s = Some opt0 \<and> optimizer_step env opt0 m4 = Inr (opt, m5) \<and>
           trigger_callbacks env ''on_batch_end''
             (s\<lparr>model := m5, optimizer := Some opt, loss := Some l\<rparr>) = Inr t \<and>
           iter_num (s\<lparr>model := m5, optimizer := Some opt, loss := Some l\<rparr>) = iter_num s \<and>
           s' = t\<lparr>iter_num := iter_num t + 1, iter_dt := clock env (Suc n) - iter_time t,
                  iter_time := clock env (Suc n)\<rparr> \<and>
           (\<forall>raw rest. collate_fn (model_block_size env) raw = Inr b \<longrightarrow>
              for_batches env (raw # rest) n s =
                (if cap_reached s' then Inr (Suc n, s') else for_batches env rest (Suc n) s'))"
proof -
  from assms obtain l m4 opt m5 t where
    o: "(case optimizer s of None \<Rightarrow> Inl (Error ''AttributeError'')
         | Some opt \<Rightarrow> optimizer_step env opt m4) = Inr (opt, m5)"
    and t: "trigger_callbacks env ''on_batch_end''
          (s\<lparr>model := m5, optimizer := Some opt, loss := Some l\<rparr>) = Inr t"
    and s': "s' = t\<lparr>iter_num := iter_num t + 1, iter_dt := clock env (Suc n) - iter_time t,
                  iter_time := clock env (Suc n)\<rparr>"
    unfolding step_def by (auto dest!: and_then_Inr simp: Let_def)
  from o obtain opt0 where o0: "optimizer s = Some opt0" "optimizer_step env opt0 m4 = Inr (opt, m5)"
    by (cases "optimizer s") simp_all
  have chk: "\<forall>raw rest. collate_fn (model_block_size env) raw = Inr b \<longrightarrow>
              for_batches env (raw # rest) n s =
                (if cap_reached s' then Inr (Suc n, s') else for_batches env rest (Suc n) s')"
    using assms by simp
  from o0 t s' chk show ?thesis by (intro exI conjI) (assumption | simp)+
qed

theorem on_batch_end_order_witness:
  "step log_env 0 pair_assembled log_before = Inr log_after \<and>
   (\<exists>l m4 opt0 opt m5 t.
      optimizer log_before = Some opt0 \<and> optimizer_step log_env opt0 m4 = Inr (opt, m5) \<and>
      trigger_callbacks log_env ''on_batch_end''
        (log_before\<lparr>model := m5, optimizer := Some opt, loss := Some l\<rparr>) = Inr t \<and>
      iter_num (log_before\<lparr>model := m5, optimizer := Some opt, loss := Some l\<rparr>) =
        iter_num log_before \<and>
      log_after = t\<lparr>iter_num := iter_num t + 1, iter_dt := clock log_env (Suc 0) - iter_time t,
                     iter_time := clock log_env (Suc 0)\<rparr> \<and>
      (\<forall>raw rest. collate_fn (model_block_size log_env) raw = Inr pair_assembled \<longrightarrow>
         for_batches log_env (raw # rest) 0 log_before =
           (if cap_reached log_after then Inr (Suc 0, log_after)
            else for_batches log_env rest (Suc 0) log_after)))"
proof -
  have st: "step log_env 0 pair_assembled log_before = Inr log_after"
    by (simp add: step_def log_env_def log_trainer_def log_before_def log_after_def
        pair_assembled_def trigger_callbacks_def)
  from on_batch_end_order [OF st] st show ?thesis by (simp only: simp_thms)
qed

lemma step_move_raises: "tensor_to env (self_device s) = Inl e \<Longrightarrow> step env n b s = Inl e"
  by (simp add: step_def)

lemma not_isl_Inr: "\<not> isl x \<Longrightarrow> \<exists>v. x = Inr v"
  by (cases x) simp_all

lemma chunks_nonempty: "0 < b \<Longrightarrow> xs \<noteq> [] \<Longrightarrow> chunks b xs \<noteq> []"
  by (subst chunks.simps) simp

lemma chunks_elems: "c \<in> set (chunks b xs) \<Longrightarrow> c \<noteq> [] \<and> set c \<subseteq> set xs"
proof (induction b xs rule: chunks.induct)
  case (1 b xs)
  show ?case
  proof (cases "b = 0 \<or> xs = []")
    case True
    then have "chunks b xs = []" by (subst chunks.simps) simp
    with "1.prems" show ?thesis by simp
  next
    case False
    then have eq: "chunks b xs = take b xs # chunks b (drop b xs)"
      by (subst chunks.simps) simp
    from "1.prems" eq consider "c = take b xs" | "c \<in> set (chunks b (drop b xs))"
      by auto
    then show ?thesis
    proof cases
      case 1
      with False show ?thesis by (auto dest: in_set_takeD)
    next
      case 2
      with "1.IH" False have "c \<noteq> [] \<and> set c \<subseteq> set (drop b xs)" by blast
      then show ?thesis by (auto dest: in_set_dropD)
    qed
  qed
qed

lemma uniform_labels_same_shape:
  assumes "\<forall>it \<in> set c. shape (snd it) = sh"
  shows "uniform_labels c"
  using assms by (cases c) (auto simp: uniform_labels_def list_all_iff)

lemma call_each_keeps:
  assumes wb: "\<forall>h t. \<exists>t'. invoke env h t = Inr t' \<and> iter_num t' = iter_num t \<and>
                 max_iters (config t') = max_iters (config t) \<and>
                 (optimizer t \<noteq> None \<longrightarrow> optimizer t' \<noteq> None)"
  shows "\<exists>t'. call_each env cbs t = Inr t' \<and> iter_num t' = iter_num t \<and>
                 max_iters (config t') = max_iters (config t) \<and>
                 (optimizer t \<noteq> None \<longrightarrow> optimizer t' \<noteq> None)"
proof (induction cbs arbitrary: t)
  case Nil
  show ?case by simp
next
  case (Cons h cbs)
  from wb obtain u where u: "invoke env h t = Inr u" "iter_num u = iter_num t"
    "max_iters (config u) = max_iters (config t)" "optimizer t \<noteq> None \<longrightarrow> optimizer u \<noteq> None"
    by blast
  from Cons.IH [of u] obtain t' where "call_each env cbs u = Inr t'" "iter_num t' = iter_num u"
    "max_iters (config t') = max_iters (config u)" "optimizer u \<noteq> None \<longrightarrow> optimizer t' \<noteq> None"
    by blast
  with u show ?case by simp
qed

lemma step_advances:
  assumes mv: "\<forall>dev. \<not> isl (tensor_to env dev)"
    and fw: "\<forall>x y m. \<not> isl (model_forward env x y m)"
    and zg: "\<forall>m. \<not> isl (zero_grad env m)"
    and bw: "\<forall>m. \<not> isl (backward env m)"
    and cl: "\<forall>c m. \<not> isl (clip_grad_norm env c m)"
    and os: "\<forall>opt m. \<not> isl (optimizer_step env opt m)"
    and wb: "\<forall>h t. \<exists>t'. invoke env h t = Inr t' \<and> iter_num t' = iter_num t \<and>
                 max_iters (config t') = max_iters (config t) \<and>
                 (optimizer t \<noteq> None \<longrightarrow> optimizer t' \<noteq> None)"
    and opt: "optimizer s \<noteq> None"
  shows "\<exists>s'. step env n b s = Inr s' \<and> iter_num s' = iter_num s + 1 \<and>
               max_iters (config s') = max_iters (config s) \<and> optimizer s' \<noteq> None"
proof -
  from mv have "\<not> isl (tensor_to env (self_device s))" by blast
  then have 0: "tensor_to env (self_device s) = Inr ()"
    by (cases "tensor_to env (self_device s)") simp_all
  from fw obtain l m1 where 1: "model_forward env (fst b) (snd b) (model s) = Inr (l, m1)"
    by (metis not_isl_Inr surj_pair)
  from zg obtain m2 where 2: "zero_grad env m1 = Inr m2" by (metis not_isl_Inr)
  from bw obtain m3 where 3: "backward env m2 = Inr m3" by (metis not_isl_Inr)
  from cl obtain m4 where 4: "clip_grad_norm env (grad_norm_clip (config s)) m3 = Inr m4"
    by (metis not_isl_Inr)
  from opt obtain opt0 where o: "optimizer s = Some opt0" by blast
  from os obtain opt' m5 where 5: "optimizer_step env opt0 m4 = Inr (opt', m5)"
    by (metis not_isl_Inr surj_pair)
  let ?t = "s\<lparr>model := m5, optimizer := Some opt', loss := Some l\<rparr>"
  from call_each_keeps [OF wb, of "case callbacks ?t ''on_batch_end'' of None \<Rightarrow> [] | Some cbs \<Rightarrow> cbs" ?t]
  obtain t' where 6: "trigger_callbacks env ''on_batch_end'' ?t = Inr t'"
    and k: "iter_num t' = iter_num s" "max_iters (config t') = max_iters (config s)"
      "optimizer t' \<noteq> None"
    unfolding trigger_callbacks_def by auto
  show ?thesis
    using k by (simp add: step_def 0 1 2 3 4 5 6 o Let_def)
qed

lemma for_batches_counts:
  assumes mv: "\<forall>dev. \<not> isl (tensor_to env dev)"
    and fw: "\<forall>x y m. \<not> isl (model_forward env x y m)"
    and zg: "\<forall>m. \<not> isl (zero_grad env m)"
    and bw: "\<forall>m. \<not> isl (backward env m)"
    and cl: "\<forall>c m. \<not> isl (clip_grad_norm env c m)"
    and os: "\<forall>opt m. \<not> isl (optimizer_step env opt m)"
    and wb: "\<forall>h t. \<exists>t'. invoke env h t = Inr t' \<and> iter_num t' = iter_num t \<and>
                 max_iters (config t') = max_iters (config t) \<and>
                 (optimizer t \<noteq> None \<longrightarrow> optimizer t' \<noteq> None)"
    and blk: "0 \<le> model_block_size env"
    and good: "\<forall>raw \<in> set raws. raw \<noteq> [] \<and> uniform_labels raw"
    and cap: "max_iters (config s) = Some K"
    and cnt: "iter_num s = int n"
    and lt: "int n < max 1 K"
    and opt: "optimizer s \<noteq> None"
  shows "\<exists>s'. for_batches env raws n s = Inr (min (n + length raws) (nat (max 1 K)), s') \<and>
               iter_num s' = int (min (n + length raws) (nat (max 1 K))) \<and>
               max_iters (config s') = Some K \<and> optimizer s' \<noteq> None"
  using good cap cnt lt opt
proof (induction raws arbitrary: n s)
  case Nil
  then show ?case by simp
next
  case (Cons raw rest)
  from Cons.prems(1) have raw: "raw \<noteq> []" "uniform_labels raw" by simp_all
  from collate_fn_succeeds [OF raw(1) blk raw(2)]
  obtain b where b: "collate_fn (model_block_size env) raw = Inr b" by blast
  from step_advances [OF mv fw zg bw cl os wb Cons.prems(5), of n b]
  obtain s1 where s1: "step env n b s = Inr s1" "iter_num s1 = iter_num s + 1"
    "max_iters (config s1) = max_iters (config s)" "optimizer s1 \<noteq> None"
    by blast
  have c1: "iter_num s1 = int (Suc n)" using s1(2) Cons.prems(3) by simp
  have k1: "max_iters (config s1) = Some K" using s1(3) Cons.prems(2) by simp
  have unf: "for_batches env (raw # rest) n s =
               (if cap_reached s1 then Inr (Suc n, s1) else for_batches env rest (Suc n) s1)"
    by (simp add: b s1(1))
  show ?case
  proof (cases "cap_reached s1")
    case True
    then have "K \<le> int (Suc n)" using c1 k1 by (simp add: cap_reached_def)
    with Cons.prems(4) have "min (n + length (raw # rest)) (nat (max 1 K)) = Suc n"
      by auto
    with True unf c1 k1 s1(4) show ?thesis by simp
  next
    case False
    then have "int (Suc n) < K" using c1 k1 by (simp add: cap_reached_def)
    then have lt': "int (Suc n) < max 1 K" by simp
    from Cons.prems(1) have "\<forall>raw \<in> set rest. raw \<noteq> [] \<and> uniform_labels raw" by simp
    from Cons.IH [OF this k1 c1 lt' s1(4)] False unf show ?thesis by simp
  qed
qed

lemma while_true_returns:
  assumes mv: "\<forall>dev. \<not> isl (tensor_to env dev)"
    and fw: "\<forall>x y m. \<not> isl (model_forward env x y m)"
    and zg: "\<forall>m. \<not> isl (zero_grad env m)"
    and bw: "\<forall>m. \<not> isl (backward env m)"
    and cl: "\<forall>c m. \<not> isl (clip_grad_norm env c m)"
    and os: "\<forall>opt m. \<not> isl (optimizer_step env opt m)"
    and wb: "\<forall>h t. \<exists>t'. invoke env h t = Inr t' \<and> iter_num t' = iter_num t \<and>
                 max_iters (config t') = max_iters (config t) \<and>
                 (optimizer t \<noteq> None \<longrightarrow> optimizer t' \<noteq> None)"
    and blk: "0 \<le> model_block_size env"
    and passes: "\<forall>p. train_loader p \<noteq> [] \<and>
                   (\<forall>raw \<in> set (train_loader p). raw \<noteq> [] \<and> uniform_labels raw)"
    and cap: "max_iters (config s) = Some K"
    and cnt: "iter_num s = int n"
    and lt: "int n < max 1 K"
    and opt: "optimizer s \<noteq> None"
  shows "\<exists>s'. while_true env train_loader p n s = Some (Inr (nat (max 1 K), s')) \<and>
               iter_num s' = max 1 K"
  using cap cnt lt opt
proof (induction "nat (max 1 K) - n" arbitrary: p n s rule: less_induct)
  case less
  let ?T = "nat (max 1 K)"
  let ?n' = "min (n + length (train_loader p)) ?T"
  from passes have good: "\<forall>raw \<in> set (train_loader p). raw \<noteq> [] \<and> uniform_labels raw"
    and len: "0 < length (train_loader p)" by simp_all
  from for_batches_counts [OF mv fw zg bw cl os wb blk good less.prems]
  obtain s1 where s1: "for_batches env (train_loader p) n s = Inr (?n', s1)"
    "iter_num s1 = int ?n'" "max_iters (config s1) = Some K" "optimizer s1 \<noteq> None"
    by blast
  have unf: "while_true env train_loader p n s =
               (if cap_reached s1 then Some (Inr (?n', s1))
                else while_true env train_loader (Suc p) ?n' s1)"
    by (subst while_true.simps) (simp add: s1(1))
  show ?case
  proof (cases "cap_reached s1")
    case True
    then have 1: "K \<le> int ?n'" using s1(2,3) by (simp add: cap_reached_def)
    have 2: "0 < ?n'" using len less.prems(3) by auto
    have "?T \<le> ?n'" using 1 2 by arith
    then have "?n' = ?T" by simp
    with True unf s1(2) show ?thesis by simp
  next
    case False
    then have "int ?n' < K" using s1(2,3) by (simp add: cap_reached_def)
    then have lt': "int ?n' < max 1 K" by simp
    have "n < ?n'" using len less.prems(3) by auto
    with lt' have "?T - ?n' < ?T - n" by linarith
    from less.hyps [OF this s1(3,2) lt' s1(4), of "Suc p"] False unf show ?thesis by simp
  qed
qed

lemma run_returns:
  assumes co: "\<forall>cfg m. \<not> isl (configure_optimizers env cfg m)"
    and tr: "\<forall>m. \<not> isl (model_train env m)"
    and mv: "\<forall>dev. \<not> isl (tensor_to env dev)"
    and fw: "\<forall>x y m. \<not> isl (model_forward env x y m)"
    and zg: "\<forall>m. \<not> isl (zero_grad env m)"
    and bw: "\<forall>m. \<not> isl (backward env m)"
    and cl: "\<forall>c m. \<not> isl (clip_grad_norm env c m)"
    and os: "\<forall>opt m. \<not> isl (optimizer_step env opt m)"
    and wb: "\<forall>h t. \<exists>t'. invoke env h t = Inr t' \<and> iter_num t' = iter_num t \<and>
                 max_iters (config t') = max_iters (config t) \<and>
                 (optimizer t \<noteq> None \<longrightarrow> optimizer t' \<noteq> None)"
    and perm: "\<forall>p. mset (shuffle env p (train_dataset s)) = mset (train_dataset s)"
    and blk: "0 \<le> model_block_size env"
    and nw: "0 \<le> num_workers (config s)"
    and bsz: "0 < batch_size (config s)"
    and ne: "train_dataset s \<noteq> []"
    and lbl: "\<forall>it \<in> set (train_dataset s). shape (snd it) = sh"
    and cap: "max_iters (config s) = Some K"
  shows "\<exists>s'. run env s = Some (Inr (nat (max 1 K), s')) \<and> iter_num s' = max 1 K"
proof -
  let ?loader = "\<lambda>p. chunks (nat (batch_size (config s))) (shuffle env p (train_dataset s))"
  from co obtain opt m1 where 1: "configure_optimizers env (config s) (model s) = Inr (opt, m1)"
    by (metis not_isl_Inr surj_pair)
  have 2: "DataLoader env (config s) (train_dataset s) = Inr ?loader"
    using nw bsz ne by (simp add: DataLoader_def)
  from tr obtain m2 where 3: "model_train env m1 = Inr m2" by (metis not_isl_Inr)
  let ?s = "s\<lparr>model := m2, optimizer := Some opt, iter_num := 0, iter_time := clock env 0\<rparr>"
  have passes: "\<forall>p. ?loader p \<noteq> [] \<and> (\<forall>raw \<in> set (?loader p). raw \<noteq> [] \<and> uniform_labels raw)"
  proof (intro allI conjI ballI)
    fix p
    have set_eq: "set (shuffle env p (train_dataset s)) = set (train_dataset s)"
      using perm by (metis mset_eq_setD)
    then have "shuffle env p (train_dataset s) \<noteq> []" using ne by auto
    then show "?loader p \<noteq> []" using bsz by (simp add: chunks_nonempty)
    fix raw assume "raw \<in> set (?loader p)"
    then have r: "raw \<noteq> [] \<and> set raw \<subseteq> set (shuffle env p (train_dataset s))"
      by (rule chunks_elems)
    then show "raw \<noteq> []" by simp
    from r set_eq lbl have "\<forall>it \<in> set raw. shape (snd it) = sh" by blast
    then show "uniform_labels raw" by (rule uniform_labels_same_shape)
  qed
  have "\<exists>s'. while_true env ?loader 0 0 ?s = Some (Inr (nat (max 1 K), s')) \<and> iter_num s' = max 1 K"
    by (rule while_true_returns [OF mv fw zg bw cl os wb blk passes]) (simp_all add: cap)
  then show ?thesis by (simp add: run_def 1 2 3)
qed

text \<open>
  C3, as stated, fails for the cap 0: with three items in batches of two, \<open>run\<close> returns
  after one execution of the step protocol, not none, and \<open>iter_num\<close> is 1, not 0.
\<close>

theorem run_cap_counterexample:
  "run_outcome (run log_env (log_trainer (capped 0 2) scenario_batch)) =
     Some (Inr (1, 1,
       [Called ''model.to'', Called ''configure_optimizers'', Called ''model.train'',
        Called ''model.forward'', Called ''model.zero_grad'', Called ''loss.backward'',
        Called ''clip_grad_norm_'', Called ''optimizer.step'', Fired ''h'' 0]))"
  by (simp add: run_outcome_def run_def log_env_def log_trainer_def capped_def
      get_default_config_def DataLoader_def scenario_batch_def while_true.simps chunks.simps
      collate_fn_def target_len_def pad_or_truncate_def slice_to_def zeros_def torch_cat_def
      torch_stack_def step_def trigger_callbacks_def cap_reached_def)

text \<open>
  C3, amended. With a cap \<open>K\<close> of at least 1 and a dataset that is not empty, \<open>run\<close>
  returns after exactly \<open>K\<close> executions of the step protocol and \<open>iter_num\<close> is \<open>K\<close> at
  return. This is for a run in which nothing raises: the collaborators (the moves of the
  batch to the device among them) return, the callbacks return and leave \<open>iter_num\<close>,
  \<open>max_iters\<close> and the presence of the optimizer alone, the loader can be built (a positive batch size, no negative worker count, each
  pass a permutation of the dataset), the labels have one shape and the block size is not
  negative.
\<close>

theorem run_cap_steps:
  assumes "\<forall>cfg m. \<not> isl (configure_optimizers env cfg m)"
    and "\<forall>m. \<not> isl (model_train env m)"
    and "\<forall>dev. \<not> isl (tensor_to env dev)"
    and "\<forall>x y m. \<not> isl (model_forward env x y m)"
    and "\<forall>m. \<not> isl (zero_grad env m)"
    and "\<forall>m. \<not> isl (backward env m)"
    and "\<forall>c m. \<not> isl (clip_grad_norm env c m)"
    and "\<forall>opt m. \<not> isl (optimizer_step env opt m)"
    and "\<forall>h t. \<exists>t'. invoke env h t = Inr t' \<and> iter_num t' = iter_num t \<and>
                 max_iters (config t') = max_iters (config t) \<and>
                 (optimizer t \<noteq> None \<longrightarrow> optimizer t' \<noteq> None)"
    and "\<forall>p. mset (shuffle env p (train_dataset s)) = mset (train_dataset s)"
    and "0 \<le> model_block_size env"
    and "0 \<le> num_workers (config s)"
    and "0 < batch_size (config s)"
    and "train_dataset s \<noteq> []"
    and "\<forall>it \<in> set (train_dataset s). shape (snd it) = sh"
    and "max_iters (config s) = Some K"
    and "1 \<le> K"
  shows "\<exists>s'. run env s = Some (Inr (nat K, s')) \<and> iter_num s' = K"
proof -
  have "max 1 K = K" using assms(17) by simp
  with run_returns [OF assms(1-16)] show ?thesis by simp
qed

theorem run_cap_steps_witness:
  "max_iters (config (log_trainer (capped 3 2) scenario_batch)) = Some 3 \<and>
   train_dataset (log_trainer (capped 3 2) scenario_batch) \<noteq> [] \<and>
   (\<exists>s'. run log_env (log_trainer (capped 3 2) scenario_batch) = Some (Inr (nat 3, s')) \<and>
          iter_num s' = 3)"
  using run_cap_steps [of log_env "log_trainer (capped 3 2) scenario_batch" "[]" 3]
  by (simp add: log_env_def log_trainer_def capped_def get_default_config_def
      scenario_batch_def)

text \<open>
  C4, as stated, fails: with the cap 0 and the default batch size, \<open>run\<close> on a dataset of
  two items pulls the first batch and executes the step protocol once before it returns.
\<close>

theorem run_zero_cap_counterexample:
  "run_outcome (run log_env (log_trainer (capped 0 64) pair_batch)) =
     Some (Inr (1, 1,
       [Called ''model.to'', Called ''configure_optimizers'', Called ''model.train'',
        Called ''model.forward'', Called ''model.zero_grad'', Called ''loss.backward'',
        Called ''clip_grad_norm_'', Called ''optimizer.step'', Fired ''h'' 0]))"
  by (simp add: run_outcome_def run_def log_env_def log_trainer_def capped_def
      get_default_config_def DataLoader_def pair_batch_def while_true.simps chunks.simps
      collate_fn_def target_len_def pad_or_truncate_def slice_to_def zeros_def torch_cat_def
      torch_stack_def step_def trigger_callbacks_def cap_reached_def)

text \<open>
  C4, amended. The cap is tested only after a step. With \<open>max_iters = 0\<close> and a dataset
  that is not empty, in a run in which nothing raises and no callback interferes, \<open>run\<close>
  pulls the first batch, executes the step protocol exactly once and returns with
  \<open>iter_num = 1\<close>. Nothing raises: the model, the optimizer and the moves of the batch to
  the device return, the loader can be built (a positive batch size, no negative worker
  count, each pass a permutation of the dataset) and every batch can be assembled (labels
  of one shape, a block size that is not negative). No callback interferes: each callback
  returns and leaves \<open>iter_num\<close>, \<open>max_iters\<close> and the presence of the optimizer alone.
\<close>

theorem run_zero_cap:
  assumes "\<forall>cfg m. \<not> isl (configure_optimizers env cfg m)"
    and "\<forall>m. \<not> isl (model_train env m)"
    and "\<forall>dev. \<not> isl (tensor_to env dev)"
    and "\<forall>x y m. \<not> isl (model_forward env x y m)"
    and "\<forall>m. \<not> isl (zero_grad env m)"
    and "\<forall>m. \<not> isl (backward env m)"
    and "\<forall>c m. \<not> isl (clip_grad_norm env c m)"
    and "\<forall>opt m. \<not> isl (optimizer_step env opt m)"
    and "\<forall>h t. \<exists>t'. invoke env h t = Inr t' \<and> iter_num t' = iter_num t \<and>
                 max_iters (config t') = max_iters (config t) \<and>
                 (optimizer t \<noteq> None \<longrightarrow> optimizer t' \<noteq> None)"
    and "\<forall>p. mset (shuffle env p (train_dataset s)) = mset (train_dataset s)"
    and "0 \<le> model_block_size env"
    and "0 \<le> num_workers (config s)"
    and "0 < batch_size (config s)"
    and "train_dataset s \<noteq> []"
    and "\<forall>it \<in> set (train_dataset s). shape (snd it) = sh"
    and "max_iters (config s) = Some 0"
  shows "\<exists>s'. run env s = Some (Inr (1, s')) \<and> iter_num s' = 1"
  using run_returns [OF assms] by simp

theorem run_zero_cap_witness:
  "max_iters (config (log_trainer (capped 0 2) scenario_batch)) = Some 0 \<and>
   train_dataset (log_trainer (capped 0 2) scenario_batch) \<noteq> [] \<and>
   (\<exists>s'. run log_env (log_trainer (capped 0 2) scenario_batch) = Some (Inr (1, s')) \<and>
          iter_num s' = 1)"
  using run_zero_cap [of log_env "log_trainer (capped 0 2) scenario_batch" "[]"]
  by (simp add: log_env_def log_trainer_def capped_def get_default_config_def
      scenario_batch_def)

end
